theory Spec2Isabelle
  imports Main
begin

section \<open>The refresh-token list of the administration console\<close>

text \<open>
  The component \<^verbatim>\<open>UserOAuthRefreshList\<close> of
  \<^verbatim>\<open>src/web/src/elements/oauth/UserRefreshList.ts\<close> extends a generic table. It has
  three methods (\<^verbatim>\<open>apiEndpoint\<close>, \<^verbatim>\<open>columns\<close>, \<^verbatim>\<open>row\<close>) and one arrow function, the
  delete callback that \<^verbatim>\<open>row\<close> binds to the delete form of each row.

  What the file imports and does not define is a parameter of the embedding:
  the translation macro \<^verbatim>\<open>t\<close>, \<^verbatim>\<open>Date.prototype.toLocaleString\<close>, the constants
  \<^verbatim>\<open>DEFAULT_CONFIG\<close> and \<^verbatim>\<open>PAGE_SIZE\<close>, and the generated client \<^verbatim>\<open>Oauth2Api\<close>.
\<close>

subsection \<open>Records of the API\<close>

text \<open>
  JavaScript numbers stand for page numbers and primary keys here; they are integers.
\<close>

type_synonym number = int

record OAuth2Provider =
  name :: string

text \<open>
  \<^verbatim>\<open>ExpiringBaseGrantModel\<close>, with the four fields the component reads (the interface
  is declared by the generated client, outside the sources). The source guards \<^verbatim>\<open>pk\<close>
  with \<^verbatim>\<open>||\<close> and \<^verbatim>\<open>expires\<close> with \<^verbatim>\<open>?.\<close>: they are optional in the declared type. It
  reads \<^verbatim>\<open>provider\<close> and \<^verbatim>\<open>scope\<close> unguarded: the declared type requires them. An
  object decoded from a response can still lack them, and the property access then
  throws; the fields are optional here so that the embedding has that branch.
  \<open>'date\<close> is the type of \<^verbatim>\<open>Date\<close> objects. A number that is not a number (NaN) is
  not represented.
\<close>

record 'date ExpiringBaseGrantModel =
  pk :: "number option"
  provider :: "OAuth2Provider option"
  expires :: "'date option"
  scope :: "string list option"

text \<open>The declared parameter type of \<^verbatim>\<open>row\<close>: the required fields are there.\<close>

definition is_ExpiringBaseGrantModel :: "'date ExpiringBaseGrantModel \<Rightarrow> bool" where
  "is_ExpiringBaseGrantModel item = (provider item \<noteq> None \<and> scope item \<noteq> None)"

subsection \<open>Requests to the generated client\<close>

text \<open>The two object literals the source passes to the client, field by field.\<close>

record Oauth2RefreshTokensListRequest =
  user :: "string option"
  ordering :: string
  page :: number
  pageSize :: number

record Oauth2RefreshTokensDeleteRequest =
  id' :: number

datatype request =
    ListRequest Oauth2RefreshTokensListRequest
  | DeleteRequest Oauth2RefreshTokensDeleteRequest

text \<open>
  \<^verbatim>\<open>new Oauth2Api(cfg).m(req)\<close>: the configuration the client is built with, the name of
  the method called on it, and the request object.
\<close>

datatype 'cfg api_call =
  Oauth2Api (configuration: 'cfg) (operation: string) (parameters: request)

text \<open>A promise, by the state it settles in (or never does).\<close>

datatype ('a, 'e) promise = Pending | Fulfilled 'a | Rejected 'e

subsection \<open>The component and its surroundings\<close>

text \<open>
  The component's own fields: the property \<^verbatim>\<open>userId\<close> (optional) and the field \<^verbatim>\<open>order\<close>,
  initialised to \<^verbatim>\<open>"-expires"\<close>.
\<close>

record UserOAuthRefreshList =
  userId :: "string option"
  order :: string

definition new_UserOAuthRefreshList :: UserOAuthRefreshList where
  "new_UserOAuthRefreshList = \<lparr>userId = None, order = ''-expires''\<rparr>"

text \<open>
  The state the methods run in: the component (\<^verbatim>\<open>this\<close>), whatever stands behind the
  generated client (\<open>'srv\<close>: the network and the server, unknown here), and the requests
  handed to the client so far, oldest first.
\<close>

record ('cfg, 'srv) world =
  self :: UserOAuthRefreshList
  backend :: "'srv"
  requests :: "'cfg api_call list"

text \<open>
  The generated client is not part of the sources: it is a parameter, any function
  from a call and the state behind it to the promise it returns and the state after.
\<close>

type_synonym ('cfg, 'srv, 'a, 'e) client =
  "'cfg api_call \<Rightarrow> 'srv \<Rightarrow> ('a, 'e) promise \<times> 'srv"

text \<open>Calling a method of the client: the call is handed over and its promise returned.\<close>

definition send ::
  "('cfg, 'srv, 'a, 'e) client \<Rightarrow> 'cfg api_call \<Rightarrow> ('cfg, 'srv) world
    \<Rightarrow> ('a, 'e) promise \<times> ('cfg, 'srv) world" where
  "send client call w =
     (case client call (backend w) of
        (p, srv) \<Rightarrow> (p, w\<lparr>backend := srv, requests := requests w @ [call]\<rparr>))"

subsection \<open>apiEndpoint\<close>

text \<open>
  \<^verbatim>\<open>
    apiEndpoint(page: number): Promise<AKResponse<ExpiringBaseGrantModel>> {
        return new Oauth2Api(DEFAULT_CONFIG).oauth2RefreshTokensList({
            user: this.userId,
            ordering: "expires",
            page: page,
            pageSize: PAGE_SIZE,
        });
    }
  \<close>
\<close>

definition apiEndpoint ::
  "('cfg, 'srv, 'a, 'e) client \<Rightarrow> 'cfg \<Rightarrow> number \<Rightarrow> number \<Rightarrow> ('cfg, 'srv) world
    \<Rightarrow> ('a, 'e) promise \<times> ('cfg, 'srv) world" where
  "apiEndpoint client DEFAULT_CONFIG PAGE_SIZE page' w =
     send client
       (Oauth2Api DEFAULT_CONFIG ''oauth2RefreshTokensList''
          (ListRequest \<lparr>user = userId (self w), ordering = ''expires'',
                        page = page', pageSize = PAGE_SIZE\<rparr>))
       w"

subsection \<open>columns\<close>

text \<open>
  \<^verbatim>\<open>new TableColumn(title, orderBy?)\<close>: the class is not part of the sources; a column is
  the arguments it was built from.
\<close>

datatype TableColumn = TableColumn (title: string) (orderBy: "string option")

text \<open>
  \<^verbatim>\<open>
    columns(): TableColumn[] {
        return [
            new TableColumn(t`Provider`, t`provider`),
            new TableColumn(t`Expires`, t`expires`),
            new TableColumn(t`Scopes`, t`scope`),
            new TableColumn(""),
        ];
    }
  \<close>
\<close>

definition columns :: "(string \<Rightarrow> string) \<Rightarrow> TableColumn list" where
  "columns t =
     [TableColumn (t ''Provider'') (Some (t ''provider'')),
      TableColumn (t ''Expires'') (Some (t ''expires'')),
      TableColumn (t ''Scopes'') (Some (t ''scope'')),
      TableColumn '''' None]"

subsection \<open>row\<close>

text \<open>
  \<^verbatim>\<open>Array.prototype.join\<close> on an array of strings: the loop of the language standard,
  with the index \<open>k\<close> and the result \<open>R\<close> so far.
\<close>

fun join_loop :: "string \<Rightarrow> string list \<Rightarrow> nat \<Rightarrow> string \<Rightarrow> string" where
  "join_loop sep [] k R = R"
| "join_loop sep (x # xs) k R = join_loop sep xs (k + 1) ((if k > 0 then R @ sep else R) @ x)"

definition join :: "string list \<Rightarrow> string \<Rightarrow> string" where
  "join xs sep = join_loop sep xs 0 ''''"

text \<open>\<^verbatim>\<open>a || b\<close> for an optional number \<open>a\<close>: undefined and 0 are falsy.\<close>

definition logical_or :: "number option \<Rightarrow> number \<Rightarrow> number" where
  "logical_or a b = (case a of None \<Rightarrow> b | Some n \<Rightarrow> if n = 0 then b else n)"

text \<open>
  The arrow function that \<^verbatim>\<open>row\<close> binds to \<^verbatim>\<open>.delete\<close>, as the variable it captures. It is
  applied by \<open>delete_callback\<close> below.
\<close>

datatype 'date closure = DeleteCallback "'date ExpiringBaseGrantModel"

text \<open>What a template interpolates, and a template: its static strings and its values.\<close>

datatype 'date binding =
    Undefined
  | Str string
  | Obj "'date ExpiringBaseGrantModel"
  | Fn "'date closure"

datatype 'date TemplateResult = html (strings: "string list") (values': "'date binding list")

datatype error = TypeError string

text \<open>\<^verbatim>\<open>item.expires?.toLocaleString()\<close>\<close>

definition optional_toLocaleString :: "('date \<Rightarrow> string) \<Rightarrow> 'date option \<Rightarrow> 'date binding" where
  "optional_toLocaleString toLocaleString d =
     (case d of None \<Rightarrow> Undefined | Some x \<Rightarrow> Str (toLocaleString x))"

text \<open>
  \<^verbatim>\<open>
    row(item: ExpiringBaseGrantModel): TemplateResult[] {
        return [
            html`${item.provider.name}`,
            html`${item.expires?.toLocaleString()}`,
            html`${item.scope.join(", ")}`,
            html`
            <ak-forms-delete
                .obj=${item}
                objectLabel=${t`Refresh Code`}
                .delete=${() => {
                    return new Oauth2Api(DEFAULT_CONFIG).oauth2RefreshTokensDelete({
                        id: item.pk || 0,
                    });
                }}>
                <button slot="trigger" class="pf-c-button pf-m-danger">
                    ${t`Delete Refresh Code`}
                </button>
            </ak-forms-delete>`,
        ];
    }
  \<close>
  The elements of the array are evaluated in order; reading \<^verbatim>\<open>name\<close> of an undefined
  provider, or \<^verbatim>\<open>join\<close> of an undefined scope, throws a TypeError.
\<close>

text \<open>The static strings of the fourth template, between its four values.\<close>

definition delete_form_strings :: "string list" where
  \<open>delete_form_strings =
     [''\<newline>            <ak-forms-delete\<newline>                .obj='',
      ''\<newline>                objectLabel='',
      ''\<newline>                .delete='',
      ''>\<newline>                <button slot="trigger" class="pf-c-button pf-m-danger">\<newline>                    '',
      ''\<newline>                </button>\<newline>            </ak-forms-delete>'']\<close>

definition row ::
  "(string \<Rightarrow> string) \<Rightarrow> ('date \<Rightarrow> string) \<Rightarrow> 'date ExpiringBaseGrantModel
    \<Rightarrow> error + 'date TemplateResult list" where
  "row t toLocaleString item =
     (case provider item of
        None \<Rightarrow> Inl (TypeError ''name'')
      | Some p \<Rightarrow>
         (case scope item of
            None \<Rightarrow> Inl (TypeError ''join'')
          | Some sc \<Rightarrow>
             Inr [html ['''', ''''] [Str (name p)],
                  html ['''', ''''] [optional_toLocaleString toLocaleString (expires item)],
                  html ['''', ''''] [Str (join sc '', '')],
                  html delete_form_strings
                       [Obj item, Str (t ''Refresh Code''), Fn (DeleteCallback item),
                        Str (t ''Delete Refresh Code'')]]))"

text \<open>
  \<^verbatim>\<open>
                .delete=${() => {
                    return new Oauth2Api(DEFAULT_CONFIG).oauth2RefreshTokensDelete({
                        id: item.pk || 0,
                    });
                }}>
  \<close>
\<close>

fun delete_callback ::
  "('cfg, 'srv, 'a, 'e) client \<Rightarrow> 'cfg \<Rightarrow> 'date closure \<Rightarrow> ('cfg, 'srv) world
    \<Rightarrow> ('a, 'e) promise \<times> ('cfg, 'srv) world" where
  "delete_callback client DEFAULT_CONFIG (DeleteCallback item) w =
     send client
       (Oauth2Api DEFAULT_CONFIG ''oauth2RefreshTokensDelete''
          (DeleteRequest \<lparr>id' = logical_or (pk item) 0\<rparr>))
       w"

subsection \<open>The component in use\<close>

text \<open>
  The table and the delete form enter the component's code in four ways: the table
  fetches a page (\<^verbatim>\<open>apiEndpoint\<close>), asks for the header (\<^verbatim>\<open>columns\<close>) or for the cells of
  a record (\<^verbatim>\<open>row\<close>), and a delete form calls the function bound to its \<^verbatim>\<open>.delete\<close>.
  \<^verbatim>\<open>columns\<close> and \<^verbatim>\<open>row\<close> assign nothing and call no method of the client (\<^verbatim>\<open>row\<close> builds
  the arrow function, it does not call it), so they return their value and leave the
  state as it is.
\<close>

datatype 'date invocation =
    CallApiEndpoint number
  | CallColumns
  | CallRow "'date ExpiringBaseGrantModel"
  | CallDelete "'date closure"

fun invoke ::
  "('cfg, 'srv, 'a, 'e) client \<Rightarrow> 'cfg \<Rightarrow> number \<Rightarrow> 'date invocation
    \<Rightarrow> ('cfg, 'srv) world \<Rightarrow> ('cfg, 'srv) world" where
  "invoke client DEFAULT_CONFIG PAGE_SIZE (CallApiEndpoint p) w =
     snd (apiEndpoint client DEFAULT_CONFIG PAGE_SIZE p w)"
| "invoke client DEFAULT_CONFIG PAGE_SIZE CallColumns w = w"
| "invoke client DEFAULT_CONFIG PAGE_SIZE (CallRow item) w = w"
| "invoke client DEFAULT_CONFIG PAGE_SIZE (CallDelete c) w =
     snd (delete_callback client DEFAULT_CONFIG c w)"

definition run ::
  "('cfg, 'srv, 'a, 'e) client \<Rightarrow> 'cfg \<Rightarrow> number \<Rightarrow> 'date invocation list
    \<Rightarrow> ('cfg, 'srv) world \<Rightarrow> ('cfg, 'srv) world" where
  "run client DEFAULT_CONFIG PAGE_SIZE invs w =
     fold (invoke client DEFAULT_CONFIG PAGE_SIZE) invs w"

subsection \<open>Notions the properties are stated with\<close>

text \<open>The requests a state holds beyond those of an earlier state.\<close>

definition issued :: "('cfg, 'srv) world \<Rightarrow> ('cfg, 'srv) world \<Rightarrow> 'cfg api_call list" where
  "issued w w' = drop (length (requests w)) (requests w')"

text \<open>A call of the list operation; a call of the delete operation.\<close>

fun is_list :: "'cfg api_call \<Rightarrow> bool" where
  "is_list (Oauth2Api cfg m (ListRequest r)) = (m = ''oauth2RefreshTokensList'')"
| "is_list (Oauth2Api cfg m (DeleteRequest r)) = False"

fun is_delete :: "'cfg api_call \<Rightarrow> bool" where
  "is_delete (Oauth2Api cfg m (DeleteRequest r)) = (m = ''oauth2RefreshTokensDelete'')"
| "is_delete (Oauth2Api cfg m (ListRequest r)) = False"

text \<open>The identifier a call of the delete operation names.\<close>

fun deleted_id :: "'cfg api_call \<Rightarrow> number option" where
  "deleted_id (Oauth2Api cfg m (DeleteRequest r)) =
     (if m = ''oauth2RefreshTokensDelete'' then Some (id' r) else None)"
| "deleted_id (Oauth2Api cfg m (ListRequest r)) = None"

text \<open>Strings in their order, with a separator between neighbours.\<close>

fun separated :: "string \<Rightarrow> string list \<Rightarrow> string" where
  "separated sep [] = ''''"
| "separated sep [x] = x"
| "separated sep (x # y # ys) = x @ sep @ separated sep (y # ys)"

section \<open>Properties\<close>

subsection \<open>Joining\<close>

lemma join_loop_later:
  "0 < k \<Longrightarrow> join_loop sep xs k R = R @ concat (map (\<lambda>x. sep @ x) xs)"
  by (induction xs arbitrary: k R) simp_all

lemma join_Nil: "join [] sep = ''''"
  by (simp add: join_def)

lemma join_Cons: "join (x # xs) sep = x @ concat (map (\<lambda>y. sep @ y) xs)"
  by (simp add: join_def join_loop_later)

lemma separated_Cons: "separated sep (x # xs) = x @ concat (map (\<lambda>y. sep @ y) xs)"
  by (induction xs arbitrary: x) simp_all

lemma join_separated: "join xs sep = separated sep xs"
  by (cases xs) (simp_all add: join_Nil join_Cons separated_Cons)

subsection \<open>The fallback of the identifier\<close>

lemma logical_or_0: "logical_or a 0 = (case a of None \<Rightarrow> 0 | Some n \<Rightarrow> n)"
  by (simp add: logical_or_def split: option.split)

subsection \<open>Handing a call to the client\<close>

lemma send_fst: "fst (send client call w) = fst (client call (backend w))"
  by (simp add: send_def split: prod.split)

lemma send_self: "self (snd (send client call w)) = self w"
  by (simp add: send_def split: prod.split)

lemma send_requests: "requests (snd (send client call w)) = requests w @ [call]"
  by (simp add: send_def split: prod.split)

lemma send_backend: "backend (snd (send client call w)) = snd (client call (backend w))"
  by (simp add: send_def split: prod.split)

lemma send_issued: "issued w (snd (send client call w)) = [call]"
  by (simp add: issued_def send_requests)

subsection \<open>Sequences of invocations\<close>

lemma invoke_self: "self (invoke client cfg ps iv w) = self w"
proof (cases iv)
  case (CallDelete c)
  then show ?thesis by (cases c) (simp add: send_self)
qed (simp_all add: apiEndpoint_def send_self)

lemma run_self: "self (run client cfg ps invs w) = self w"
  unfolding run_def by (induction invs arbitrary: w) (simp_all add: invoke_self)

lemma invoke_requests:
  "\<exists>new. requests (invoke client cfg ps iv w) = requests w @ new
     \<and> list_all (\<lambda>c. is_list c \<or> is_delete c) new"
proof (cases iv)
  case (CallApiEndpoint p)
  then show ?thesis by (simp add: apiEndpoint_def send_requests)
next
  case (CallDelete c)
  then show ?thesis by (cases c) (simp add: send_requests)
qed simp_all

lemma run_requests:
  "\<exists>new. requests (run client cfg ps invs w) = requests w @ new
     \<and> list_all (\<lambda>c. is_list c \<or> is_delete c) new"
  unfolding run_def
proof (induction invs arbitrary: w)
  case Nil
  show ?case by simp
next
  case (Cons iv invs)
  obtain n1 where n1: "requests (invoke client cfg ps iv w) = requests w @ n1"
    "list_all (\<lambda>c. is_list c \<or> is_delete c) n1"
    using invoke_requests [of client cfg ps iv w] by blast
  obtain n2 where n2:
    "requests (fold (invoke client cfg ps) invs (invoke client cfg ps iv w))
      = requests (invoke client cfg ps iv w) @ n2"
    "list_all (\<lambda>c. is_list c \<or> is_delete c) n2"
    using Cons.IH [of "invoke client cfg ps iv w"] by blast
  have "requests (fold (invoke client cfg ps) (iv # invs) w) = requests w @ (n1 @ n2)"
    using n1(1) n2(1) by simp
  moreover have "list_all (\<lambda>c. is_list c \<or> is_delete c) (n1 @ n2)"
    using n1(2) n2(2) by simp
  ultimately show ?case by blast
qed

subsection \<open>Fetching a page\<close>

text \<open>
  Claim C2. For every page number \<open>p\<close>, \<^verbatim>\<open>apiEndpoint(p)\<close> hands exactly one call to the
  generated client: the operation \<^verbatim>\<open>oauth2RefreshTokensList\<close>, with \<^verbatim>\<open>page\<close> equal to
  \<open>p\<close>, \<^verbatim>\<open>pageSize\<close> equal to \<^verbatim>\<open>PAGE_SIZE\<close> and \<^verbatim>\<open>user\<close> equal to the component's
  \<^verbatim>\<open>userId\<close>; what it returns is the promise the client returned for that call.
\<close>

theorem apiEndpoint_lists_page:
  "\<exists>req.
     requests (snd (apiEndpoint client cfg ps p w))
       = requests w @ [Oauth2Api cfg ''oauth2RefreshTokensList'' (ListRequest req)]
     \<and> page req = p \<and> pageSize req = ps \<and> user req = userId (self w)
     \<and> fst (apiEndpoint client cfg ps p w)
         = fst (client (Oauth2Api cfg ''oauth2RefreshTokensList'' (ListRequest req)) (backend w))"
proof -
  let ?req = "\<lparr>user = userId (self w), ordering = ''expires'', page = p, pageSize = ps\<rparr>"
  have "requests (snd (apiEndpoint client cfg ps p w))
          = requests w @ [Oauth2Api cfg ''oauth2RefreshTokensList'' (ListRequest ?req)]"
    by (simp add: apiEndpoint_def send_requests)
  moreover have "fst (apiEndpoint client cfg ps p w)
          = fst (client (Oauth2Api cfg ''oauth2RefreshTokensList'' (ListRequest ?req)) (backend w))"
    by (simp add: apiEndpoint_def send_fst)
  moreover have "page ?req = p \<and> pageSize ?req = ps \<and> user ?req = userId (self w)"
    by simp
  ultimately show ?thesis by blast
qed

subsection \<open>The header\<close>

text \<open>
  Claim C4. \<^verbatim>\<open>columns()\<close> returns, in this order, a column for the provider, one for the
  expiration timestamp, one for the granted scopes and one with an empty label and no
  sort key (the action column), and nothing else: there is no column for the identifier
  or for any other field. Titles and sort keys both go through the translation macro;
  where the macro leaves a message as it is, the sort keys are the field names
  \<^verbatim>\<open>provider\<close>, \<^verbatim>\<open>expires\<close> and \<^verbatim>\<open>scope\<close>.
\<close>

theorem columns_fields:
  "map title (columns t) = [t ''Provider'', t ''Expires'', t ''Scopes'', '''']
   \<and> map orderBy (columns t) = [Some (t ''provider''), Some (t ''expires''), Some (t ''scope''), None]
   \<and> map orderBy (columns (\<lambda>m. m)) = [Some ''provider'', Some ''expires'', Some ''scope'', None]
   \<and> Some ''pk'' \<notin> set (map orderBy (columns (\<lambda>m. m)))"
  by (simp add: columns_def)

subsection \<open>The cells of a record\<close>

text \<open>
  Claim C3. For every refresh-grant record (a record with its provider \<open>p\<close> and its scopes
  \<open>sc\<close>), \<^verbatim>\<open>row(item)\<close> returns four templates. The first three have no static text
  and one value each: the provider's name; the expiration timestamp through
  \<^verbatim>\<open>toLocaleString\<close> (undefined when the record has none); the scopes in their order
  with \<^verbatim>\<open>", "\<close> between neighbours. The fourth is the delete form, with the markup of
  the source: an \<^verbatim>\<open>ak-forms-delete\<close> element whose \<^verbatim>\<open>.obj\<close> is the record itself, whose
  \<^verbatim>\<open>objectLabel\<close> is the translated label, whose \<^verbatim>\<open>.delete\<close> is the delete callback of
  that record, and which holds the trigger button with its translated caption. The value
  bound to \<^verbatim>\<open>.delete\<close> is a function that, once called, hands one call of
  \<^verbatim>\<open>oauth2RefreshTokensDelete\<close> to the client. No field is transformed in any other way.
\<close>

theorem row_cells:
  assumes \<open>provider item = Some p\<close> and \<open>scope item = Some sc\<close>
  shows \<open>row t toLocaleString item =
       Inr [html ['''', ''''] [Str (name p)],
            html ['''', '''']
              [case expires item of None \<Rightarrow> Undefined | Some d \<Rightarrow> Str (toLocaleString d)],
            html ['''', ''''] [Str (separated '', '' sc)],
            html
              [''\<newline>            <ak-forms-delete\<newline>                .obj='',
               ''\<newline>                objectLabel='',
               ''\<newline>                .delete='',
               ''>\<newline>                <button slot="trigger" class="pf-c-button pf-m-danger">\<newline>                    '',
               ''\<newline>                </button>\<newline>            </ak-forms-delete>'']
              [Obj item, Str (t ''Refresh Code''), Fn (DeleteCallback item),
               Str (t ''Delete Refresh Code'')]]
     \<and> issued w (snd (delete_callback client cfg (DeleteCallback item) w))
         = [Oauth2Api cfg ''oauth2RefreshTokensDelete''
              (DeleteRequest \<lparr>id' = logical_or (pk item) 0\<rparr>)]\<close>
  using assms
  by (simp add: row_def delete_form_strings_def optional_toLocaleString_def join_separated
      send_issued)

theorem row_cells_witness:
  \<open>provider \<lparr>pk = Some 7, provider = Some \<lparr>name = ''grafana''\<rparr>,
             expires = Some (1619870400 :: nat),
             scope = Some [''openid'', ''email'', ''profile'']\<rparr> = Some \<lparr>name = ''grafana''\<rparr>
   \<and> scope \<lparr>pk = Some 7, provider = Some \<lparr>name = ''grafana''\<rparr>,
             expires = Some (1619870400 :: nat),
             scope = Some [''openid'', ''email'', ''profile'']\<rparr>
       = Some [''openid'', ''email'', ''profile'']
   \<and> row (\<lambda>m. m) (\<lambda>d. ''5/1/2021, 12:00:00 PM'')
         \<lparr>pk = Some 7, provider = Some \<lparr>name = ''grafana''\<rparr>,
          expires = Some (1619870400 :: nat),
          scope = Some [''openid'', ''email'', ''profile'']\<rparr>
       = Inr [html ['''', ''''] [Str ''grafana''],
              html ['''', ''''] [Str ''5/1/2021, 12:00:00 PM''],
              html ['''', ''''] [Str ''openid, email, profile''],
              html
                [''\<newline>            <ak-forms-delete\<newline>                .obj='',
               ''\<newline>                objectLabel='',
               ''\<newline>                .delete='',
               ''>\<newline>                <button slot="trigger" class="pf-c-button pf-m-danger">\<newline>                    '',
               ''\<newline>                </button>\<newline>            </ak-forms-delete>'']
                [Obj \<lparr>pk = Some 7, provider = Some \<lparr>name = ''grafana''\<rparr>,
                      expires = Some (1619870400 :: nat),
                      scope = Some [''openid'', ''email'', ''profile'']\<rparr>,
                 Str ''Refresh Code'',
                 Fn (DeleteCallback \<lparr>pk = Some 7, provider = Some \<lparr>name = ''grafana''\<rparr>,
                      expires = Some (1619870400 :: nat),
                      scope = Some [''openid'', ''email'', ''profile'']\<rparr>),
                 Str ''Delete Refresh Code'']]
   \<and> issued \<lparr>self = new_UserOAuthRefreshList, backend = (), requests = []\<rparr>
        (snd (delete_callback (\<lambda>c s. (Pending :: (unit, unit) promise, s :: unit)) ''config''
          (DeleteCallback \<lparr>pk = Some 7, provider = Some \<lparr>name = ''grafana''\<rparr>,
                      expires = Some (1619870400 :: nat),
                      scope = Some [''openid'', ''email'', ''profile'']\<rparr>)
          \<lparr>self = new_UserOAuthRefreshList, backend = (), requests = []\<rparr>))
       = [Oauth2Api ''config'' ''oauth2RefreshTokensDelete'' (DeleteRequest \<lparr>id' = 7\<rparr>)]\<close>
proof -
  let ?item = "\<lparr>pk = Some 7, provider = Some \<lparr>name = ''grafana''\<rparr>,
                expires = Some (1619870400 :: nat),
                scope = Some [''openid'', ''email'', ''profile'']\<rparr>"
  have h1: "provider ?item = Some \<lparr>name = ''grafana''\<rparr>" by simp
  have h2: "scope ?item = Some [''openid'', ''email'', ''profile'']" by simp
  from row_cells [OF h1 h2, of "\<lambda>m. m" "\<lambda>d. ''5/1/2021, 12:00:00 PM''"
      "\<lparr>self = new_UserOAuthRefreshList, backend = (), requests = []\<rparr>"
      "\<lambda>c s. (Pending :: (unit, unit) promise, s :: unit)" "''config''"]
  show ?thesis by (simp add: logical_or_def)
qed

text \<open>
  Claim C8. The header and the rows agree in length: \<^verbatim>\<open>columns()\<close> returns exactly four
  columns, and for every record of the declared type \<^verbatim>\<open>row(item)\<close> returns exactly four
  templates.
\<close>

theorem columns_row_agree:
  assumes "is_ExpiringBaseGrantModel item"
  shows "length (columns t) = 4
     \<and> (\<exists>cells. row t toLocaleString item = Inr cells \<and> length cells = 4
           \<and> length cells = length (columns t))"
  using assms
  by (auto simp: is_ExpiringBaseGrantModel_def row_def columns_def)

theorem columns_row_agree_witness:
  "is_ExpiringBaseGrantModel
     \<lparr>pk = None, provider = Some \<lparr>name = ''grafana''\<rparr>, expires = None :: nat option,
      scope = Some []\<rparr>
   \<and> length (columns (\<lambda>m. m)) = 4
   \<and> (\<exists>cells.
        row (\<lambda>m. m) (\<lambda>d. '''')
          \<lparr>pk = None, provider = Some \<lparr>name = ''grafana''\<rparr>, expires = None :: nat option,
           scope = Some []\<rparr> = Inr cells
        \<and> length cells = 4 \<and> length cells = length (columns (\<lambda>m. m)))"
proof -
  let ?item = "\<lparr>pk = None, provider = Some \<lparr>name = ''grafana''\<rparr>,
                expires = None :: nat option, scope = Some []\<rparr>"
  have h: "is_ExpiringBaseGrantModel ?item"
    by (simp add: is_ExpiringBaseGrantModel_def)
  from columns_row_agree [OF h, of "\<lambda>m. m" "\<lambda>d. ''''"] h
  show ?thesis by auto
qed

text \<open>
  Claim C9. For every record whose provider and scope are defined, \<^verbatim>\<open>row(item)\<close> returns
  its four templates whatever the optional fields are. With no expiration timestamp the
  second template has no static text and the value undefined, which prints as nothing.
  With no identifier, or the identifier 0, the function bound to the delete form does not
  fail: it hands the client one call of \<^verbatim>\<open>oauth2RefreshTokensDelete\<close> with \<^verbatim>\<open>id\<close> 0 and
  returns the client's promise.
\<close>

theorem row_total:
  assumes "provider item = Some p" and "scope item = Some sc"
  shows "\<exists>c1 c2 c3 c4.
     row t toLocaleString item = Inr [c1, c2, c3, c4]
     \<and> Fn (DeleteCallback item) \<in> set (values' c4)
     \<and> (expires item = None \<longrightarrow> c2 = html ['''', ''''] [Undefined])
     \<and> (pk item = None \<or> pk item = Some 0 \<longrightarrow>
          requests (snd (delete_callback client cfg (DeleteCallback item) w))
            = requests w @ [Oauth2Api cfg ''oauth2RefreshTokensDelete'' (DeleteRequest \<lparr>id' = 0\<rparr>)]
          \<and> fst (delete_callback client cfg (DeleteCallback item) w)
            = fst (client (Oauth2Api cfg ''oauth2RefreshTokensDelete'' (DeleteRequest \<lparr>id' = 0\<rparr>))
                     (backend w)))"
  using assms
  by (auto simp: row_def optional_toLocaleString_def logical_or_def send_requests send_fst)

theorem row_total_witness:
  "provider \<lparr>pk = None, provider = Some \<lparr>name = ''grafana''\<rparr>, expires = None :: nat option,
             scope = Some [''openid'']\<rparr> = Some \<lparr>name = ''grafana''\<rparr>
   \<and> scope \<lparr>pk = None, provider = Some \<lparr>name = ''grafana''\<rparr>, expires = None :: nat option,
             scope = Some [''openid'']\<rparr> = Some [''openid'']
   \<and> (\<exists>c1 c3 c4.
        row (\<lambda>m. m) (\<lambda>d. ''never'')
          \<lparr>pk = None, provider = Some \<lparr>name = ''grafana''\<rparr>, expires = None :: nat option,
           scope = Some [''openid'']\<rparr>
          = Inr [c1, html ['''', ''''] [Undefined], c3, c4])
   \<and> requests (snd (delete_callback
        (\<lambda>c s. (Fulfilled () :: (unit, unit) promise, s :: unit)) ''config''
        (DeleteCallback \<lparr>pk = None, provider = Some \<lparr>name = ''grafana''\<rparr>,
           expires = None :: nat option, scope = Some [''openid'']\<rparr>)
        \<lparr>self = new_UserOAuthRefreshList, backend = (), requests = []\<rparr>))
       = [Oauth2Api ''config'' ''oauth2RefreshTokensDelete'' (DeleteRequest \<lparr>id' = 0\<rparr>)]
   \<and> fst (delete_callback (\<lambda>c s. (Fulfilled (), s :: unit)) ''config''
        (DeleteCallback \<lparr>pk = None, provider = Some \<lparr>name = ''grafana''\<rparr>,
           expires = None :: nat option, scope = Some [''openid'']\<rparr>)
        \<lparr>self = new_UserOAuthRefreshList, backend = (), requests = []\<rparr>)
       = (Fulfilled () :: (unit, unit) promise)"
proof -
  let ?item = "\<lparr>pk = None, provider = Some \<lparr>name = ''grafana''\<rparr>,
                expires = None :: nat option, scope = Some [''openid'']\<rparr>"
  have h1: "provider ?item = Some \<lparr>name = ''grafana''\<rparr>" by simp
  have h2: "scope ?item = Some [''openid'']" by simp
  from row_total [OF h1 h2, of "\<lambda>m. m" "\<lambda>d. ''never''"
      "\<lambda>c s. (Fulfilled () :: (unit, unit) promise, s :: unit)" "''config''"
      "\<lparr>self = new_UserOAuthRefreshList, backend = (), requests = []\<rparr>"]
  show ?thesis by auto
qed

subsection \<open>What reaches the client\<close>

text \<open>
  Claim C5. Whatever the table and the delete forms call, and in whatever order, the
  component invokes two operations of the generated client and no other:
  \<^verbatim>\<open>oauth2RefreshTokensList\<close>, once per call of \<^verbatim>\<open>apiEndpoint\<close>, and
  \<^verbatim>\<open>oauth2RefreshTokensDelete\<close>, once per call of a row's delete callback. \<^verbatim>\<open>columns\<close>
  and \<^verbatim>\<open>row\<close> invoke none.
\<close>

theorem only_list_and_delete:
  "operation ` set (issued w (run client cfg ps invs w))
     \<subseteq> {''oauth2RefreshTokensList'', ''oauth2RefreshTokensDelete''}
   \<and> map operation (issued w (snd (apiEndpoint client cfg ps p w)))
       = [''oauth2RefreshTokensList'']
   \<and> map operation (issued w (snd (delete_callback client cfg c w)))
       = [''oauth2RefreshTokensDelete'']
   \<and> issued w (invoke client cfg ps CallColumns w) = []
   \<and> issued w (invoke client cfg ps (CallRow item) w) = []"
proof -
  obtain new where new: "requests (run client cfg ps invs w) = requests w @ new"
    "list_all (\<lambda>c. is_list c \<or> is_delete c) new"
    using run_requests [of client cfg ps invs w] by blast
  have "operation x \<in> {''oauth2RefreshTokensList'', ''oauth2RefreshTokensDelete''}"
    if "is_list x \<or> is_delete x" for x :: "'a api_call"
    using that by (cases x rule: is_list.cases) auto
  then have "operation ` set new \<subseteq> {''oauth2RefreshTokensList'', ''oauth2RefreshTokensDelete''}"
    using new(2) by (auto simp: list_all_iff)
  then have "operation ` set (issued w (run client cfg ps invs w))
     \<subseteq> {''oauth2RefreshTokensList'', ''oauth2RefreshTokensDelete''}"
    by (simp add: issued_def new(1))
  moreover have "map operation (issued w (snd (apiEndpoint client cfg ps p w)))
       = [''oauth2RefreshTokensList'']"
    by (simp add: apiEndpoint_def send_issued)
  moreover have "map operation (issued w (snd (delete_callback client cfg c w)))
       = [''oauth2RefreshTokensDelete'']"
    by (cases c) (simp add: send_issued)
  moreover have "issued w (invoke client cfg ps CallColumns w) = []"
    by (simp add: issued_def)
  moreover have "issued w (invoke client cfg ps (CallRow item) w) = []"
    by (simp add: issued_def)
  ultimately show ?thesis by blast
qed

text \<open>
  Claim C1. The component changes no refresh-grant record except by deleting it. Over
  every sequence of calls into the component, each request that reaches the client is a
  list request or a delete request, and the component's own fields stay as they were.
  Fetching a page hands over list requests only; rendering the header or a row leaves
  the whole state as it is, and a rendered row passes the record on to its delete form
  as it received it, with a delete callback for that record. When that callback is
  called for a record with the identifier \<open>i\<close> (0 included), the one request it hands
  over is \<^verbatim>\<open>oauth2RefreshTokensDelete\<close> with \<^verbatim>\<open>id\<close> equal to \<open>i\<close>: the identifier the
  request names is the record's own.
\<close>

theorem grants_only_deleted:
  assumes "pk item = Some i"
  shows "list_all (\<lambda>c. is_list c \<or> is_delete c) (issued w (run client cfg ps invs w))
   \<and> self (run client cfg ps invs w) = self w
   \<and> list_all is_list (issued w (invoke client cfg ps (CallApiEndpoint p) w))
   \<and> invoke client cfg ps CallColumns w = w
   \<and> invoke client cfg ps (CallRow item) w = w
   \<and> (case row t toLocaleString item of
         Inl e \<Rightarrow> True
       | Inr cells \<Rightarrow> Obj item \<in> set (values' (last cells))
           \<and> Fn (DeleteCallback item) \<in> set (values' (last cells)))
   \<and> issued w (invoke client cfg ps (CallDelete (DeleteCallback item)) w)
       = [Oauth2Api cfg ''oauth2RefreshTokensDelete'' (DeleteRequest \<lparr>id' = i\<rparr>)]
   \<and> map deleted_id (issued w (invoke client cfg ps (CallDelete (DeleteCallback item)) w))
       = [pk item]"
proof -
  obtain new where new: "requests (run client cfg ps invs w) = requests w @ new"
    "list_all (\<lambda>c. is_list c \<or> is_delete c) new"
    using run_requests [of client cfg ps invs w] by blast
  then have "list_all (\<lambda>c. is_list c \<or> is_delete c) (issued w (run client cfg ps invs w))"
    by (simp add: issued_def)
  moreover have "self (run client cfg ps invs w) = self w"
    by (rule run_self)
  moreover have "list_all is_list (issued w (invoke client cfg ps (CallApiEndpoint p) w))"
    by (simp add: apiEndpoint_def send_issued)
  moreover have "case row t toLocaleString item of
         Inl e \<Rightarrow> True
       | Inr cells \<Rightarrow> Obj item \<in> set (values' (last cells))
           \<and> Fn (DeleteCallback item) \<in> set (values' (last cells))"
    by (simp add: row_def split: option.split)
  moreover have "issued w (invoke client cfg ps (CallDelete (DeleteCallback item)) w)
       = [Oauth2Api cfg ''oauth2RefreshTokensDelete'' (DeleteRequest \<lparr>id' = i\<rparr>)]"
    using assms by (simp add: send_issued logical_or_0)
  moreover have
    "map deleted_id (issued w (invoke client cfg ps (CallDelete (DeleteCallback item)) w))
       = [pk item]"
    using assms by (simp add: send_issued logical_or_0)
  ultimately show ?thesis by simp
qed

theorem grants_only_deleted_witness:
  "pk \<lparr>pk = Some 7, provider = Some \<lparr>name = ''grafana''\<rparr>, expires = None :: nat option,
       scope = Some [''openid'']\<rparr> = Some 7
   \<and> issued \<lparr>self = new_UserOAuthRefreshList, backend = (), requests = []\<rparr>
        (invoke (\<lambda>c s. (Fulfilled () :: (unit, unit) promise, s :: unit)) ''config'' 20
          (CallDelete (DeleteCallback
             \<lparr>pk = Some 7, provider = Some \<lparr>name = ''grafana''\<rparr>,
              expires = None :: nat option, scope = Some [''openid'']\<rparr>))
          \<lparr>self = new_UserOAuthRefreshList, backend = (), requests = []\<rparr>)
       = [Oauth2Api ''config'' ''oauth2RefreshTokensDelete'' (DeleteRequest \<lparr>id' = 7\<rparr>)]
   \<and> list_all (\<lambda>c. is_list c \<or> is_delete c)
        (issued \<lparr>self = new_UserOAuthRefreshList, backend = (), requests = []\<rparr>
          (run (\<lambda>c s. (Fulfilled () :: (unit, unit) promise, s :: unit)) ''config'' 20
            [CallApiEndpoint 1,
             CallRow \<lparr>pk = Some 7, provider = Some \<lparr>name = ''grafana''\<rparr>,
               expires = None :: nat option, scope = Some [''openid'']\<rparr>,
             CallDelete (DeleteCallback
               \<lparr>pk = Some 7, provider = Some \<lparr>name = ''grafana''\<rparr>,
                expires = None :: nat option, scope = Some [''openid'']\<rparr>)]
            \<lparr>self = new_UserOAuthRefreshList, backend = (), requests = []\<rparr>))"
proof -
  let ?item = "\<lparr>pk = Some 7, provider = Some \<lparr>name = ''grafana''\<rparr>,
                expires = None :: nat option, scope = Some [''openid'']\<rparr>"
  have h: "pk ?item = Some 7" by simp
  from grants_only_deleted [OF h,
      of "\<lparr>self = new_UserOAuthRefreshList, backend = (), requests = []\<rparr>"
         "\<lambda>c s. (Fulfilled () :: (unit, unit) promise, s :: unit)" "''config''" 20
         "[CallApiEndpoint 1, CallRow ?item, CallDelete (DeleteCallback ?item)]" 1
         "\<lambda>m. m" "\<lambda>d. ''never''"] h
  show ?thesis by blast
qed

subsection \<open>Failures of the client\<close>

text \<open>
  Claim C6. Neither \<^verbatim>\<open>apiEndpoint\<close> nor the delete callback handles an error. For every
  client, state and input, each of them hands the client exactly one call (there is no
  retry), returns the very promise the client returned for it (there is no catch and no
  fallback), leaves what stands behind the client as that one call left it, and leaves
  the component's fields as they were. So when the client's promise is rejected with
  \<open>e\<close>, what the table or the delete form receives is that promise, rejected with \<open>e\<close>.
\<close>

theorem promise_returned_unhandled:
  "length (issued w (snd (apiEndpoint client cfg ps p w))) = 1
   \<and> fst (apiEndpoint client cfg ps p w)
       = fst (client (last (requests (snd (apiEndpoint client cfg ps p w)))) (backend w))
   \<and> backend (snd (apiEndpoint client cfg ps p w))
       = snd (client (last (requests (snd (apiEndpoint client cfg ps p w)))) (backend w))
   \<and> self (snd (apiEndpoint client cfg ps p w)) = self w
   \<and> length (issued w (snd (delete_callback client cfg c w))) = 1
   \<and> fst (delete_callback client cfg c w)
       = fst (client (last (requests (snd (delete_callback client cfg c w)))) (backend w))
   \<and> backend (snd (delete_callback client cfg c w))
       = snd (client (last (requests (snd (delete_callback client cfg c w)))) (backend w))
   \<and> self (snd (delete_callback client cfg c w)) = self w
   \<and> (fst (client (last (requests (snd (apiEndpoint client cfg ps p w)))) (backend w))
         = Rejected e
       \<longrightarrow> fst (apiEndpoint client cfg ps p w) = Rejected e)
   \<and> (fst (client (last (requests (snd (delete_callback client cfg c w)))) (backend w))
         = Rejected e
       \<longrightarrow> fst (delete_callback client cfg c w) = Rejected e)"
proof -
  have a: "length (issued w (snd (apiEndpoint client cfg ps p w))) = 1
     \<and> fst (apiEndpoint client cfg ps p w)
         = fst (client (last (requests (snd (apiEndpoint client cfg ps p w)))) (backend w))
     \<and> backend (snd (apiEndpoint client cfg ps p w))
         = snd (client (last (requests (snd (apiEndpoint client cfg ps p w)))) (backend w))
     \<and> self (snd (apiEndpoint client cfg ps p w)) = self w"
    by (simp add: apiEndpoint_def send_issued send_requests send_fst send_backend send_self)
  have d: "length (issued w (snd (delete_callback client cfg c w))) = 1
     \<and> fst (delete_callback client cfg c w)
         = fst (client (last (requests (snd (delete_callback client cfg c w)))) (backend w))
     \<and> backend (snd (delete_callback client cfg c w))
         = snd (client (last (requests (snd (delete_callback client cfg c w)))) (backend w))
     \<and> self (snd (delete_callback client cfg c w)) = self w"
    by (cases c) (simp add: send_issued send_requests send_fst send_backend send_self)
  from a d show ?thesis by simp
qed

theorem promise_returned_unhandled_witness:
  "fst (apiEndpoint (\<lambda>c s. (Rejected ''503'' :: (unit, string) promise, s :: unit)) ''config'' 20 1
         \<lparr>self = new_UserOAuthRefreshList, backend = (), requests = []\<rparr>)
     = Rejected ''503''
   \<and> fst (delete_callback (\<lambda>c s. (Rejected ''503'' :: (unit, string) promise, s :: unit))
         ''config''
         (DeleteCallback \<lparr>pk = Some 7, provider = Some \<lparr>name = ''grafana''\<rparr>, expires = None :: nat option,
            scope = Some [''openid'']\<rparr>)
         \<lparr>self = new_UserOAuthRefreshList, backend = (), requests = []\<rparr>)
     = Rejected ''503''
   \<and> self (snd (apiEndpoint (\<lambda>c s. (Rejected ''503'' :: (unit, string) promise, s :: unit))
         ''config'' 20 1
         \<lparr>self = new_UserOAuthRefreshList, backend = (), requests = []\<rparr>))
     = new_UserOAuthRefreshList"
  using promise_returned_unhandled
    [of "\<lparr>self = new_UserOAuthRefreshList, backend = (), requests = []\<rparr>"
        "\<lambda>c s. (Rejected ''503'' :: (unit, string) promise, s :: unit)" "''config''" 20 1
        "DeleteCallback \<lparr>pk = Some 7, provider = Some \<lparr>name = ''grafana''\<rparr>, expires = None :: nat option,
            scope = Some [''openid'']\<rparr>" "''503''"]
  by simp

subsection \<open>The ordering of the list request\<close>

text \<open>
  Claim C7. For every page number, the list request carries the ordering \<^verbatim>\<open>"expires"\<close>,
  whatever the component's field \<^verbatim>\<open>order\<close> holds: the same request goes out for every value
  of the field. The field is initialised to \<^verbatim>\<open>"-expires"\<close>, no call into the component
  changes it, and the two strings differ.
\<close>

theorem ordering_fixed:
  "(\<exists>req. issued w (snd (apiEndpoint client cfg ps p w))
            = [Oauth2Api cfg ''oauth2RefreshTokensList'' (ListRequest req)]
          \<and> ordering req = ''expires''
          \<and> ordering req \<noteq> order new_UserOAuthRefreshList)
   \<and> issued (w\<lparr>self := (self w)\<lparr>order := v\<rparr>\<rparr>)
        (snd (apiEndpoint client cfg ps p (w\<lparr>self := (self w)\<lparr>order := v\<rparr>\<rparr>)))
       = issued w (snd (apiEndpoint client cfg ps p w))
   \<and> order new_UserOAuthRefreshList = ''-expires''
   \<and> order (self (run client cfg ps invs
        (w\<lparr>self := new_UserOAuthRefreshList\<lparr>userId := u\<rparr>\<rparr>))) = ''-expires''"
proof -
  let ?req = "\<lparr>user = userId (self w), ordering = ''expires'', page = p, pageSize = ps\<rparr>"
  have "issued w (snd (apiEndpoint client cfg ps p w))
            = [Oauth2Api cfg ''oauth2RefreshTokensList'' (ListRequest ?req)]
          \<and> ordering ?req = ''expires''
          \<and> ordering ?req \<noteq> order new_UserOAuthRefreshList"
    by (simp add: apiEndpoint_def send_issued new_UserOAuthRefreshList_def)
  then have first: "\<exists>req. issued w (snd (apiEndpoint client cfg ps p w))
            = [Oauth2Api cfg ''oauth2RefreshTokensList'' (ListRequest req)]
          \<and> ordering req = ''expires''
          \<and> ordering req \<noteq> order new_UserOAuthRefreshList"
    by blast
  have second: "issued (w\<lparr>self := (self w)\<lparr>order := v\<rparr>\<rparr>)
        (snd (apiEndpoint client cfg ps p (w\<lparr>self := (self w)\<lparr>order := v\<rparr>\<rparr>)))
       = issued w (snd (apiEndpoint client cfg ps p w))"
    by (simp add: apiEndpoint_def send_issued)
  have third: "order new_UserOAuthRefreshList = ''-expires''"
    by (simp add: new_UserOAuthRefreshList_def)
  have fourth: "order (self (run client cfg ps invs
        (w\<lparr>self := new_UserOAuthRefreshList\<lparr>userId := u\<rparr>\<rparr>))) = ''-expires''"
    by (simp add: run_self new_UserOAuthRefreshList_def)
  from first second third fourth show ?thesis by blast
qed

end
